theory Spec2Isabelle
  imports Complex_Main
begin

section \<open>Pricing a down-and-out call: the notebook's pricers over the reals\<close>

text \<open>
  The notebook \<^verbatim>\<open>BarriersTensorFlow.ipynb\<close> prices a down-and-out barrier call
  three ways: a closed formula (\<^verbatim>\<open>analytical_downOut_py\<close> and its TensorFlow
  twin), a Monte Carlo simulation in numpy (\<^verbatim>\<open>monte_carlo_down_out_py\<close>) and
  the same simulation as a TensorFlow graph (\<^verbatim>\<open>monte_carlo_down_out_tf\<close>).

  Numbers: the source computes in IEEE floating point (float64 in numpy, float32 in
  TensorFlow). The model has two readings of it.

  The first reads every float as a real number, so rounding and overflow are outside
  it. What floating point does where the reals have no value is kept: a Python
  division by zero raises, the square root of a negative number is \<^verbatim>\<open>nan\<close>, and
  so is the mean of an empty array. The statements about the arithmetic of the pricers
  (the path matrix, the price as a discounted mean, its sign and monotonicity, the
  closed formula, the derivatives) are made in this reading.

  The second reads a float as a real number inside the range of float64, an infinity
  or \<^verbatim>\<open>nan\<close>: a result beyond the largest finite float64 is an infinity,
  \<^verbatim>\<open>inf * 0\<close> is \<^verbatim>\<open>nan\<close>, and Python's \<^verbatim>\<open>**\<close> raises
  \<^verbatim>\<open>OverflowError\<close>. The statements whose subject is \<^verbatim>\<open>nan\<close> or an
  exception are made in this reading. Rounding inside the range is in neither.
\<close>

subsection \<open>Values and errors\<close>

datatype py_error = ZeroDivisionError | OverflowError

datatype npfloat = Finite real | NaN

text \<open>
  A two-dimensional numpy array: \<^verbatim>\<open>shape[1]\<close> and its rows. The column count is
  stored, because an array with no rows still has one.
\<close>

record ndarray =
  shape1 :: nat
  rows :: "real list list"

definition well_shaped :: "ndarray \<Rightarrow> bool" where
  "well_shaped Z \<longleftrightarrow> list_all (\<lambda>row. length row = shape1 Z) (rows Z)"

subsection \<open>The Monte Carlo pipeline, line by line\<close>

text \<open>\<^verbatim>\<open>np.cumprod(..., axis=1)\<close> on one row: the running product.\<close>

fun cumprod_from :: "real \<Rightarrow> real list \<Rightarrow> real list" where
  "cumprod_from a [] = []"
| "cumprod_from a (x # xs) = (a * x) # cumprod_from (a * x) xs"

definition cumprod :: "real list \<Rightarrow> real list" where
  "cumprod xs = cumprod_from 1 xs"

text \<open>\<^verbatim>\<open>B_shift = B*np.exp(0.5826*sigma*np.sqrt(dt))\<close>\<close>

definition B_shift :: "real \<Rightarrow> real \<Rightarrow> real \<Rightarrow> real" where
  "B_shift B sigma dt = B * exp (0.5826 * sigma * sqrt dt)"

text \<open>
  \<^verbatim>\<open>S_T = S * np.cumprod(np.exp((r-sigma**2/2)*dt+sigma*np.sqrt(dt)*stdnorm_random_variates), axis=1)\<close>
\<close>

definition S_T :: "real \<Rightarrow> real \<Rightarrow> real \<Rightarrow> real \<Rightarrow> real list list \<Rightarrow> real list list" where
  "S_T S sigma r dt dw =
     map (\<lambda>row. map (\<lambda>p. S * p)
            (cumprod (map (\<lambda>z. exp ((r - sigma\<^sup>2 / 2) * dt + sigma * sqrt dt * z)) row))) dw"

text \<open>\<^verbatim>\<open>non_touch = (np.min(S_T, axis=1) > B_shift)*1\<close>\<close>

definition non_touch :: "real \<Rightarrow> real list list \<Rightarrow> real list" where
  "non_touch b paths = map (\<lambda>row. if Min (set row) > b then 1 else 0) paths"

text \<open>
  \<^verbatim>\<open>non_touch = tf.cast(tf.reduce_all(S_T > B_shift, axis=1), tf.float32)\<close>
\<close>

definition non_touch_tf :: "real \<Rightarrow> real list list \<Rightarrow> real list" where
  "non_touch_tf b paths = map (\<lambda>row. if list_all (\<lambda>x. x > b) row then 1 else 0) paths"

text \<open>\<^verbatim>\<open>call_payout = np.maximum(S_T[:,-1] - K, 0)\<close>\<close>

definition call_payout :: "real \<Rightarrow> real list list \<Rightarrow> real list" where
  "call_payout K paths = map (\<lambda>row. max (last row - K) 0) paths"

text \<open>
  \<^verbatim>\<open>np.mean\<close> and \<^verbatim>\<open>tf.reduce_mean\<close>: the mean of no values is
  \<^verbatim>\<open>nan\<close> (0/0 in floating point), not an exception.
\<close>

definition mean :: "real list \<Rightarrow> npfloat" where
  "mean xs = (if xs = [] then NaN else Finite (sum_list xs / real (length xs)))"

text \<open>The product of a float and a possibly-\<^verbatim>\<open>nan\<close> float.\<close>

fun scale :: "real \<Rightarrow> npfloat \<Rightarrow> npfloat" where
  "scale c (Finite x) = Finite (c * x)"
| "scale c NaN = NaN"

text \<open>
  \<^verbatim>\<open>monte_carlo_down_out_py\<close>. The scalar arguments are Python floats, as in
  every call of the notebook, so \<^verbatim>\<open>time_to_expiry / stdnorm_random_variates.shape[1]\<close>
  is Python's division and raises on a zero column count. With a negative
  \<^verbatim>\<open>dt\<close>, \<^verbatim>\<open>np.sqrt(dt)\<close> is \<^verbatim>\<open>nan\<close>; it reaches
  \<^verbatim>\<open>B_shift\<close> and every entry of \<^verbatim>\<open>S_T\<close>, the comparison with
  \<^verbatim>\<open>nan\<close> is false, \<^verbatim>\<open>np.maximum\<close> passes \<^verbatim>\<open>nan\<close> on, and
  \<^verbatim>\<open>0 * nan\<close> is \<^verbatim>\<open>nan\<close>: the result is \<^verbatim>\<open>nan\<close>.
\<close>

definition monte_carlo_down_out_py ::
  "real \<Rightarrow> real \<Rightarrow> real \<Rightarrow> real \<Rightarrow> real \<Rightarrow> real \<Rightarrow> ndarray \<Rightarrow> py_error + npfloat" where
  "monte_carlo_down_out_py S_0 strike time_to_expiry implied_vol riskfree_rate barrier
       stdnorm_random_variates =
     (if shape1 stdnorm_random_variates = 0 then Inl ZeroDivisionError
      else
        let S = S_0;
            K = strike;
            dt = time_to_expiry / real (shape1 stdnorm_random_variates);
            sigma = implied_vol;
            r = riskfree_rate;
            B = barrier
        in if dt < 0 then Inr NaN
           else
             let b_shift = B_shift B sigma dt;
                 s_T = S_T S sigma r dt (rows stdnorm_random_variates);
                 nt = non_touch b_shift s_T;
                 payout = call_payout K s_T;
                 npv = mean (map2 (*) nt payout)
             in Inr (scale (exp (- time_to_expiry * r)) npv))"

text \<open>
  \<^verbatim>\<open>monte_carlo_down_out_tf\<close> builds a graph over the placeholders
  \<^verbatim>\<open>S, K, dt, T, sigma, r, B, dw\<close>; this is its price node \<^verbatim>\<open>npv\<close>. The
  knock-out test is \<^verbatim>\<open>tf.reduce_all\<close> over the row and the discount is
  \<^verbatim>\<open>tf.exp(-r*T)\<close>. \<^verbatim>\<open>dt\<close> and \<^verbatim>\<open>T\<close> are separate inputs of the
  graph. \<^verbatim>\<open>tf.sqrt\<close> of a negative \<^verbatim>\<open>dt\<close> is \<^verbatim>\<open>nan\<close>; the model lets
  it reach the result as in numpy, which holds if \<^verbatim>\<open>tf.maximum\<close> passes
  \<^verbatim>\<open>nan\<close> on. Nothing below is proved about the graph at a negative \<^verbatim>\<open>dt\<close>.
\<close>

definition monte_carlo_down_out_tf_npv ::
  "real \<Rightarrow> real \<Rightarrow> real \<Rightarrow> real \<Rightarrow> real \<Rightarrow> real \<Rightarrow> real \<Rightarrow> real list list \<Rightarrow> npfloat" where
  "monte_carlo_down_out_tf_npv S K dt T sigma r B dw =
     (if dt < 0 then NaN
      else
        let b_shift = B_shift B sigma dt;
            s_T = S_T S sigma r dt dw;
            nt = non_touch_tf b_shift s_T;
            payout = call_payout K s_T
        in scale (exp (- r * T)) (mean (map2 (*) nt payout)))"

text \<open>
  The inner \<^verbatim>\<open>pricer\<close> of \<^verbatim>\<open>monte_carlo_down_out_tf\<close>: it computes
  \<^verbatim>\<open>timedelta = time_to_expiry / stdnorm_random_variates.shape[1]\<close> (Python's
  division), feeds the placeholders and runs the graph. The model returns the first
  fetched value, the price.
\<close>

definition monte_carlo_down_out_tf ::
  "real \<Rightarrow> real \<Rightarrow> real \<Rightarrow> real \<Rightarrow> real \<Rightarrow> real \<Rightarrow> ndarray \<Rightarrow> py_error + npfloat" where
  "monte_carlo_down_out_tf S_0 strike time_to_expiry implied_vol riskfree_rate barrier
       stdnorm_random_variates =
     (if shape1 stdnorm_random_variates = 0 then Inl ZeroDivisionError
      else
        let timedelta = time_to_expiry / real (shape1 stdnorm_random_variates)
        in Inr (monte_carlo_down_out_tf_npv S_0 strike timedelta time_to_expiry implied_vol
                  riskfree_rate barrier (rows stdnorm_random_variates)))"

subsection \<open>Which tensors the TensorFlow pricers fetch\<close>

text \<open>
  A tensor is the price node or the derivative of a tensor with respect to a
  placeholder, and \<^verbatim>\<open>tf.gradients(y, xs)\<close> is one derivative tensor of \<^verbatim>\<open>y\<close>
  for each placeholder of \<^verbatim>\<open>xs\<close>, in order. Which tensors a pricer fetches is
  the notebook's choice and is modelled here; what they evaluate to follows below.
\<close>

datatype placeholder = ph_S | ph_K | ph_dt | ph_T | ph_sigma | ph_r | ph_B | ph_dw

datatype tensor = Npv | Gradient tensor placeholder

definition tf_gradients :: "tensor \<Rightarrow> placeholder list \<Rightarrow> tensor list" where
  "tf_gradients y xs = map (Gradient y) xs"

text \<open>An element of \<^verbatim>\<open>target_calc\<close>: one tensor, or a list of tensors.\<close>

datatype fetch = Single tensor | Several "tensor list"




text \<open>\<^verbatim>\<open>target_calc\<close> of \<^verbatim>\<open>analytical_downOut_tf_pricer(enable_greeks)\<close>.\<close>

definition analytical_downOut_tf_pricer_target_calc :: "bool \<Rightarrow> fetch list" where
  "analytical_downOut_tf_pricer_target_calc enable_greeks =
     [Single Npv] @
     (if enable_greeks
      then let greeks = tf_gradients Npv [ph_S, ph_sigma, ph_r, ph_K, ph_dt, ph_B];
               dS_2ndOrder = tf_gradients (greeks ! 0) [ph_S, ph_sigma, ph_r, ph_K, ph_dt, ph_B];
               dsigma_2ndOrder = tf_gradients (greeks ! 1) [ph_S, ph_sigma, ph_r, ph_K, ph_dt, ph_B]
           in [Several greeks, Several dS_2ndOrder, Several dsigma_2ndOrder]
      else [])"

subsection \<open>What the fetched tensors evaluate to\<close>





subsection \<open>The closed formulas\<close>

text \<open>
  \<^verbatim>\<open>Phi\<close> is the standard normal distribution function of the libraries
  (\<^verbatim>\<open>stats.norm.cdf\<close>, \<^verbatim>\<open>tf.distributions.Normal(0.,1.).cdf\<close>); the formulas take
  it as a parameter. Python's \<^verbatim>\<open>x**2\<close> is a square, and \<^verbatim>\<open>x**y\<close> with a
  positive base is \<open>x powr y\<close>. These definitions read the source where every
  operation has a real value, that is for positive \<open>S\<close>, \<open>K\<close>, \<open>T\<close>,
  \<open>sigma\<close> and \<open>B\<close>; elsewhere the source divides by zero or produces
  \<^verbatim>\<open>nan\<close> or \<^verbatim>\<open>inf\<close>, which they do not model, and nothing is proved about
  them there.
\<close>

definition blackScholes_py :: "(real \<Rightarrow> real) \<Rightarrow> real \<Rightarrow> real \<Rightarrow> real \<Rightarrow> real \<Rightarrow> real \<Rightarrow> real" where
  "blackScholes_py Phi S_0 strike time_to_expiry implied_vol riskfree_rate =
     (let S = S_0;
          K = strike;
          dt = time_to_expiry;
          sigma = implied_vol;
          r = riskfree_rate;
          d_1 = (ln (S_0 / K) + (r + sigma\<^sup>2 / 2) * dt) / (sigma * sqrt dt);
          d_2 = d_1 - sigma * sqrt dt
      in S * Phi d_1 - K * exp (- r * dt) * Phi d_2)"

definition analytical_downOut_py ::
  "(real \<Rightarrow> real) \<Rightarrow> real \<Rightarrow> real \<Rightarrow> real \<Rightarrow> real \<Rightarrow> real \<Rightarrow> real \<Rightarrow> real" where
  "analytical_downOut_py Phi S_0 strike time_to_expiry implied_vol riskfree_rate barrier =
     (let S = S_0;
          K = strike;
          dt = time_to_expiry;
          sigma = implied_vol;
          r = riskfree_rate;
          alpha = 0.5 - r / sigma\<^sup>2;
          B = barrier;
          d_1 = (ln (S_0 / K) + (r + sigma\<^sup>2 / 2) * dt) / (sigma * sqrt dt);
          d_2 = d_1 - sigma * sqrt dt;
          bs = S * Phi d_1 - K * exp (- r * dt) * Phi d_2;
          d_1a = (ln (B\<^sup>2 / (S * K)) + (r + sigma\<^sup>2 / 2) * dt) / (sigma * sqrt dt);
          d_2a = d_1a - sigma * sqrt dt;
          reflection = (S / B) powr (1 - r / sigma\<^sup>2)
                         * ((B\<^sup>2 / S) * Phi d_1a - K * exp (- r * dt) * Phi d_2a)
      in bs - reflection)"

text \<open>The price node \<^verbatim>\<open>npv\<close> of \<^verbatim>\<open>analytical_downOut_tf_pricer\<close>.\<close>

definition analytical_downOut_tf_npv ::
  "(real \<Rightarrow> real) \<Rightarrow> real \<Rightarrow> real \<Rightarrow> real \<Rightarrow> real \<Rightarrow> real \<Rightarrow> real \<Rightarrow> real" where
  "analytical_downOut_tf_npv Phi S K dt sigma r B =
     (let d_1 = (ln (S / K) + (r + sigma\<^sup>2 / 2) * dt) / (sigma * sqrt dt);
          d_2 = d_1 - sigma * sqrt dt;
          bs_npv = S * Phi d_1 - K * exp (- r * dt) * Phi d_2;
          d_1a = (ln (B\<^sup>2 / (S * K)) + (r + sigma\<^sup>2 / 2) * dt) / (sigma * sqrt dt);
          d_2a = d_1a - sigma * sqrt dt;
          reflection = (S / B) powr (1 - r / sigma\<^sup>2)
                         * ((B\<^sup>2 / S) * Phi d_1a - K * exp (- r * dt) * Phi d_2a)
      in bs_npv - reflection)"

subsection \<open>The reference formula as the specification words it\<close>

text \<open>
  The specification's \<open>bs(s,k,t,v,rr) = s*Phi(d1) - k*exp(-rr*t)*Phi(d2)\<close> with
  \<open>d1 = (ln(s/k) + (rr+v^2/2)t)/(v*sqrt(t))\<close> and \<open>d2 = d1 - v*sqrt(t)\<close>, and its
  down-and-out price \<open>bs(S,K,T,sigma,r) - (S/B)^(1 - 2r/sigma^2) * bs(B^2/S,K,T,sigma,r)\<close>.
\<close>

definition spec_bs :: "(real \<Rightarrow> real) \<Rightarrow> real \<Rightarrow> real \<Rightarrow> real \<Rightarrow> real \<Rightarrow> real \<Rightarrow> real" where
  "spec_bs Phi s k t v rr =
     s * Phi ((ln (s / k) + (rr + v\<^sup>2 / 2) * t) / (v * sqrt t))
     - k * exp (- rr * t) * Phi ((ln (s / k) + (rr + v\<^sup>2 / 2) * t) / (v * sqrt t) - v * sqrt t)"

definition spec_down_out_call ::
  "(real \<Rightarrow> real) \<Rightarrow> real \<Rightarrow> real \<Rightarrow> real \<Rightarrow> real \<Rightarrow> real \<Rightarrow> real \<Rightarrow> real" where
  "spec_down_out_call Phi S K T sigma r B =
     spec_bs Phi S K T sigma r
     - (S / B) powr (1 - 2 * r / sigma\<^sup>2) * spec_bs Phi (B\<^sup>2 / S) K T sigma r"

section \<open>The numpy pricer and the closed formula in float64 with its range\<close>

text \<open>
  A float64 is a real number inside the range, an infinity or \<^verbatim>\<open>nan\<close>.
  \<open>round64\<close> stores a real result: at or beyond \<open>2^1024 - 2^970\<close> (the largest
  finite float64 plus half a unit in its last place) it is an infinity, at or below
  \<open>2^-1075\<close> in absolute value (half the smallest subnormal) it is zero, and
  otherwise it is kept as it is: rounding inside the range is not modelled, and
  neither is the sign of a zero.
\<close>

datatype float64 = Num real | PosInf | NegInf | NotANumber

definition float_overflow :: real where
  "float_overflow = 2 ^ 1024 - 2 ^ 970"

definition float_underflow :: real where
  "float_underflow = 1 / 2 ^ 1075"

definition round64 :: "real \<Rightarrow> float64" where
  "round64 x =
     (if float_overflow \<le> x then PosInf
      else if x \<le> - float_overflow then NegInf
      else if \<bar>x\<bar> \<le> float_underflow then Num 0
      else Num x)"

text \<open>
  The IEEE operations, as Python's \<^verbatim>\<open>+\<close>, \<^verbatim>\<open>-\<close>, \<^verbatim>\<open>*\<close> on floats and
  numpy's on arrays compute them: they never raise, an overflow gives an infinity,
  and \<^verbatim>\<open>inf - inf\<close> and \<^verbatim>\<open>0 * inf\<close> are \<^verbatim>\<open>nan\<close>.
\<close>

fun fsign :: "float64 \<Rightarrow> real" where
  "fsign (Num a) = sgn a"
| "fsign PosInf = 1"
| "fsign NegInf = - 1"
| "fsign NotANumber = 0"

definition signed_inf :: "real \<Rightarrow> float64" where
  "signed_inf s = (if s = 0 then NotANumber else if 0 < s then PosInf else NegInf)"

fun fneg :: "float64 \<Rightarrow> float64" where
  "fneg (Num a) = Num (- a)"
| "fneg PosInf = NegInf"
| "fneg NegInf = PosInf"
| "fneg NotANumber = NotANumber"

fun fadd :: "float64 \<Rightarrow> float64 \<Rightarrow> float64" where
  "fadd NotANumber y = NotANumber"
| "fadd x NotANumber = NotANumber"
| "fadd (Num a) (Num b) = round64 (a + b)"
| "fadd PosInf NegInf = NotANumber"
| "fadd NegInf PosInf = NotANumber"
| "fadd PosInf y = PosInf"
| "fadd x PosInf = PosInf"
| "fadd NegInf y = NegInf"
| "fadd x NegInf = NegInf"

definition fsub :: "float64 \<Rightarrow> float64 \<Rightarrow> float64" where
  "fsub x y = fadd x (fneg y)"

fun fmul :: "float64 \<Rightarrow> float64 \<Rightarrow> float64" where
  "fmul NotANumber y = NotANumber"
| "fmul x NotANumber = NotANumber"
| "fmul (Num a) (Num b) = round64 (a * b)"
| "fmul x y = signed_inf (fsign x * fsign y)"

text \<open>
  Division by a number that is not zero (the \<^verbatim>\<open>2\<close> of \<^verbatim>\<open>sigma**2/2\<close>, the
  length in the mean, and Python's \<^verbatim>\<open>/\<close> below once the divisor is known not to
  be zero).
\<close>

fun fdiv_real :: "float64 \<Rightarrow> real \<Rightarrow> float64" where
  "fdiv_real (Num a) c = round64 (a / c)"
| "fdiv_real PosInf c = signed_inf c"
| "fdiv_real NegInf c = signed_inf (- c)"
| "fdiv_real NotANumber c = NotANumber"

text \<open>
  \<^verbatim>\<open>np.exp\<close>, \<^verbatim>\<open>np.sqrt\<close> (of a negative number: \<^verbatim>\<open>nan\<close>), the comparison
  \<^verbatim>\<open>>\<close> (false when an operand is \<^verbatim>\<open>nan\<close>), \<^verbatim>\<open>np.maximum\<close> and
  \<^verbatim>\<open>np.min\<close> (both pass \<^verbatim>\<open>nan\<close> on) and \<^verbatim>\<open>np.cumprod\<close>. The pricer
  takes \<^verbatim>\<open>np.min\<close> of rows with at least one entry only.
\<close>

fun fexp :: "float64 \<Rightarrow> float64" where
  "fexp (Num a) = round64 (exp a)"
| "fexp PosInf = PosInf"
| "fexp NegInf = Num 0"
| "fexp NotANumber = NotANumber"

fun fsqrt :: "float64 \<Rightarrow> float64" where
  "fsqrt (Num a) = (if a < 0 then NotANumber else Num (sqrt a))"
| "fsqrt PosInf = PosInf"
| "fsqrt NegInf = NotANumber"
| "fsqrt NotANumber = NotANumber"

fun fgt :: "float64 \<Rightarrow> float64 \<Rightarrow> bool" where
  "fgt NotANumber y = False"
| "fgt x NotANumber = False"
| "fgt (Num a) (Num b) = (b < a)"
| "fgt PosInf PosInf = False"
| "fgt PosInf y = True"
| "fgt x PosInf = False"
| "fgt NegInf y = False"
| "fgt x NegInf = True"

definition fmax :: "float64 \<Rightarrow> float64 \<Rightarrow> float64" where
  "fmax x y = (if x = NotANumber \<or> y = NotANumber then NotANumber else if fgt y x then y else x)"

definition fmin :: "float64 \<Rightarrow> float64 \<Rightarrow> float64" where
  "fmin x y = (if x = NotANumber \<or> y = NotANumber then NotANumber else if fgt x y then y else x)"

fun amin :: "float64 list \<Rightarrow> float64" where
  "amin [] = NotANumber"
| "amin (x # xs) = foldl fmin x xs"

fun cumprod64_from :: "float64 \<Rightarrow> float64 list \<Rightarrow> float64 list" where
  "cumprod64_from a [] = []"
| "cumprod64_from a (x # xs) = fmul a x # cumprod64_from (fmul a x) xs"

fun cumprod64 :: "float64 list \<Rightarrow> float64 list" where
  "cumprod64 [] = []"
| "cumprod64 (x # xs) = x # cumprod64_from x xs"

text \<open>
  Python's \<^verbatim>\<open>x**2\<close> on a float: it raises \<^verbatim>\<open>OverflowError\<close> where the
  multiplication would give an infinity.
\<close>

definition py_square :: "real \<Rightarrow> py_error + float64" where
  "py_square x = (if float_overflow \<le> x\<^sup>2 then Inl OverflowError else Inr (round64 (x\<^sup>2)))"

text \<open>
  \<^verbatim>\<open>monte_carlo_down_out_py\<close> once more, line by line, in this reading. The
  arguments are finite Python floats, read as reals; the variates are finite too.
  \<^verbatim>\<open>B_shift\<close> is computed before \<^verbatim>\<open>sigma**2\<close> is, and neither before the
  division by the column count. The mean sums from left to right.
\<close>

definition B_shift64 :: "real \<Rightarrow> real \<Rightarrow> float64 \<Rightarrow> float64" where
  "B_shift64 B sigma dt = fmul (Num B) (fexp (fmul (fmul (Num 0.5826) (Num sigma)) (fsqrt dt)))"

definition S_T64 :: "real \<Rightarrow> float64 \<Rightarrow> real \<Rightarrow> real \<Rightarrow> float64 \<Rightarrow> real list list \<Rightarrow> float64 list list" where
  "S_T64 S sigma_sq sigma r dt dw =
     map (\<lambda>row. map (fmul (Num S))
            (cumprod64 (map (\<lambda>z. fexp (fadd (fmul (fsub (Num r) (fdiv_real sigma_sq 2)) dt)
                                             (fmul (fmul (Num sigma) (fsqrt dt)) (Num z)))) row))) dw"

definition non_touch64 :: "float64 \<Rightarrow> float64 list list \<Rightarrow> real list" where
  "non_touch64 b paths = map (\<lambda>row. if fgt (amin row) b then 1 else 0) paths"

definition call_payout64 :: "real \<Rightarrow> float64 list list \<Rightarrow> float64 list" where
  "call_payout64 K paths = map (\<lambda>row. fmax (fsub (last row) (Num K)) (Num 0)) paths"

definition mean64 :: "float64 list \<Rightarrow> float64" where
  "mean64 xs = (if xs = [] then NotANumber else fdiv_real (foldl fadd (Num 0) xs) (real (length xs)))"

definition discount64 :: "real \<Rightarrow> real \<Rightarrow> float64" where
  "discount64 time_to_expiry r = fexp (fmul (Num (- time_to_expiry)) (Num r))"

definition monte_carlo_down_out_py_float64 ::
  "real \<Rightarrow> real \<Rightarrow> real \<Rightarrow> real \<Rightarrow> real \<Rightarrow> real \<Rightarrow> ndarray \<Rightarrow> py_error + float64" where
  "monte_carlo_down_out_py_float64 S_0 strike time_to_expiry implied_vol riskfree_rate barrier
       stdnorm_random_variates =
     (if shape1 stdnorm_random_variates = 0 then Inl ZeroDivisionError
      else
        let S = S_0;
            K = strike;
            dt = round64 (time_to_expiry / real (shape1 stdnorm_random_variates));
            sigma = implied_vol;
            r = riskfree_rate;
            B = barrier;
            b_shift = B_shift64 B sigma dt
        in case py_square sigma of
             Inl err \<Rightarrow> Inl err
           | Inr sigma_sq \<Rightarrow>
               let s_T = S_T64 S sigma_sq sigma r dt (rows stdnorm_random_variates);
                   nt = non_touch64 b_shift s_T;
                   payout = call_payout64 K s_T;
                   npv = mean64 (map2 (\<lambda>i p. fmul (Num i) p) nt payout)
               in Inr (fmul (discount64 time_to_expiry r) npv))"






section \<open>Facts about the pipeline\<close>

subsection \<open>The running product\<close>

lemma length_cumprod_from: "length (cumprod_from a xs) = length xs"
  by (induction xs arbitrary: a) simp_all

lemma length_cumprod: "length (cumprod xs) = length xs"
  by (simp add: cumprod_def length_cumprod_from)



lemma length_S_T: "length (S_T S sigma r dt dw) = length dw"
  by (simp add: S_T_def)




subsection \<open>The knock-out test and the normal form of the price\<close>


lemma map2_times_map:
  "map2 (*) (map f xs) (map g xs) = map (\<lambda>x. f x * g x) xs"
  by (induction xs) simp_all

lemma S_T_rows_nonempty:
  assumes "well_shaped Z" and "shape1 Z \<noteq> 0"
  shows "\<forall>row\<in>set (S_T S sigma r dt (rows Z)). row \<noteq> []"
proof
  fix row assume "row \<in> set (S_T S sigma r dt (rows Z))"
  then obtain zs where zs: "zs \<in> set (rows Z)"
    and row: "row = map (\<lambda>p. S * p)
       (cumprod (map (\<lambda>z. exp ((r - sigma\<^sup>2 / 2) * dt + sigma * sqrt dt * z)) zs))"
    by (auto simp: S_T_def)
  from assms(1) zs have "length zs = shape1 Z"
    by (simp add: well_shaped_def list_all_iff)
  with assms(2) have "length row \<noteq> 0"
    by (simp add: row length_cumprod)
  then show "row \<noteq> []" by simp
qed

lemma non_touch_eq_tf:
  assumes "\<forall>row\<in>set paths. row \<noteq> []"
  shows "non_touch b paths = non_touch_tf b paths"
  unfolding non_touch_def non_touch_tf_def
  using assms by (intro map_cong refl) (simp add: list_all_iff)

lemma terms_py:
  assumes "\<forall>row\<in>set paths. row \<noteq> []"
  shows "map2 (*) (non_touch b paths) (call_payout K paths) =
         map (\<lambda>row. (if \<forall>x\<in>set row. b < x then 1 else 0) * max (last row - K) 0) paths"
proof -
  have "map2 (*) (non_touch b paths) (call_payout K paths) =
        map (\<lambda>row. (if b < Min (set row) then 1 else 0) * max (last row - K) 0) paths"
    by (simp add: non_touch_def call_payout_def map2_times_map)
  also have "\<dots> = map (\<lambda>row. (if \<forall>x\<in>set row. b < x then 1 else 0) * max (last row - K) 0) paths"
    using assms by (intro map_cong refl) simp
  finally show ?thesis .
qed

lemma monte_carlo_down_out_py_normal:
  assumes "well_shaped Z" and "shape1 Z \<noteq> 0" and "rows Z \<noteq> []" and "0 \<le> T"
  shows "monte_carlo_down_out_py S K T sigma r B Z =
         Inr (Finite (exp (- (r * T)) *
           ((\<Sum>row\<leftarrow>S_T S sigma r (T / real (shape1 Z)) (rows Z).
               (if \<forall>x\<in>set row. B_shift B sigma (T / real (shape1 Z)) < x then 1 else 0) *
               max (last row - K) 0)
            / real (length (rows Z)))))"
proof -
  let ?dt = "T / real (shape1 Z)"
  let ?paths = "S_T S sigma r ?dt (rows Z)"
  have dt: "\<not> ?dt < 0" using assms(4) by (simp add: not_less)
  have ne: "\<forall>row\<in>set ?paths. row \<noteq> []"
    using assms(1,2) by (rule S_T_rows_nonempty)
  have len: "length ?paths = length (rows Z)" by (simp add: length_S_T)
  have nonempty: "map2 (*) (non_touch (B_shift B sigma ?dt) ?paths) (call_payout K ?paths) \<noteq> []"
    using assms(3) len by (simp only: terms_py [OF ne]) auto
  have "monte_carlo_down_out_py S K T sigma r B Z =
        Inr (scale (exp (- T * r))
          (mean (map2 (*) (non_touch (B_shift B sigma ?dt) ?paths) (call_payout K ?paths))))"
    using assms(2) dt by (simp add: monte_carlo_down_out_py_def Let_def)
  also have "mean (map2 (*) (non_touch (B_shift B sigma ?dt) ?paths) (call_payout K ?paths)) =
        Finite (sum_list (map2 (*) (non_touch (B_shift B sigma ?dt) ?paths) (call_payout K ?paths))
          / real (length (rows Z)))"
    using nonempty by (simp add: mean_def non_touch_def call_payout_def len)
  finally show ?thesis
    by (simp add: terms_py [OF ne] mult.commute)
qed

lemma monte_carlo_down_out_tf_eq_py:
  assumes "well_shaped Z" and "0 \<le> T"
  shows "monte_carlo_down_out_tf S K T sigma r B Z = monte_carlo_down_out_py S K T sigma r B Z"
proof (cases "shape1 Z = 0")
  case True
  then show ?thesis
    by (simp add: monte_carlo_down_out_tf_def monte_carlo_down_out_py_def)
next
  case False
  have "non_touch_tf b (S_T S sigma r dt (rows Z)) = non_touch b (S_T S sigma r dt (rows Z))"
    for b dt
    using S_T_rows_nonempty [OF assms(1) False] by (simp add: non_touch_eq_tf)
  then show ?thesis
    by (simp add: monte_carlo_down_out_tf_def monte_carlo_down_out_tf_npv_def
        monte_carlo_down_out_py_def Let_def mult.commute)
qed

subsection \<open>Sums of per-path terms\<close>




lemma all_knocked_out_zero:
  assumes "well_shaped Z" and "shape1 Z \<noteq> 0" and "rows Z \<noteq> []" and "0 \<le> T"
    and "\<forall>row\<in>set (S_T S sigma r (T / real (shape1 Z)) (rows Z)).
           \<exists>x\<in>set row. x \<le> B_shift B sigma (T / real (shape1 Z))"
  shows "monte_carlo_down_out_py S K T sigma r B Z = Inr (Finite 0)"
proof -
  let ?paths = "S_T S sigma r (T / real (shape1 Z)) (rows Z)"
  let ?b = "B_shift B sigma (T / real (shape1 Z))"
  have out: "\<not> (\<forall>x\<in>set row. ?b < x)" if "row \<in> set ?paths" for row
    using assms(5) that by (meson not_less)
  have "map (\<lambda>row. (if \<forall>x\<in>set row. ?b < x then 1 else 0) * max (last row - K) 0) ?paths
      = map (\<lambda>row. 0) ?paths"
    by (intro map_cong refl) (simp add: out)
  then have "(\<Sum>row\<leftarrow>?paths. (if \<forall>x\<in>set row. ?b < x then 1 else 0) * max (last row - K) 0)
      = (\<Sum>row\<leftarrow>?paths. 0)"
    by (simp only:)
  then have "(\<Sum>row\<leftarrow>?paths. (if \<forall>x\<in>set row. ?b < x then 1 else 0) * max (last row - K) 0) = 0"
    by (simp only: sum_list_0)
  then show ?thesis
    by (simp add: monte_carlo_down_out_py_normal [OF assms(1-4)])
qed

lemma all_survive_mean:
  assumes "well_shaped Z" and "shape1 Z \<noteq> 0" and "rows Z \<noteq> []" and "0 \<le> T"
    and "\<forall>row\<in>set (S_T S sigma r (T / real (shape1 Z)) (rows Z)).
           \<forall>x\<in>set row. B_shift B sigma (T / real (shape1 Z)) < x"
  shows "monte_carlo_down_out_py S K T sigma r B Z =
         Inr (Finite (exp (- (r * T)) *
           ((\<Sum>row\<leftarrow>S_T S sigma r (T / real (shape1 Z)) (rows Z). max (last row - K) 0)
            / real (length (rows Z)))))"
proof -
  let ?paths = "S_T S sigma r (T / real (shape1 Z)) (rows Z)"
  let ?b = "B_shift B sigma (T / real (shape1 Z))"
  have "map (\<lambda>row. (if \<forall>x\<in>set row. ?b < x then 1 else 0) * max (last row - K) 0) ?paths
      = map (\<lambda>row. max (last row - K) 0) ?paths"
    using assms(5) by (intro map_cong refl) simp
  then have "(\<Sum>row\<leftarrow>?paths. (if \<forall>x\<in>set row. ?b < x then 1 else 0) * max (last row - K) 0)
      = (\<Sum>row\<leftarrow>?paths. max (last row - K) 0)"
    by (simp only:)
  then show ?thesis
    by (simp only: monte_carlo_down_out_py_normal [OF assms(1-4)])
qed

lemma same_tests_same_price:
  assumes "well_shaped Z" and "shape1 Z \<noteq> 0" and "rows Z \<noteq> []" and "0 \<le> T"
    and "\<forall>row\<in>set (S_T S sigma r (T / real (shape1 Z)) (rows Z)).
           (\<forall>x\<in>set row. B_shift B1 sigma (T / real (shape1 Z)) < x) =
           (\<forall>x\<in>set row. B_shift B2 sigma (T / real (shape1 Z)) < x)"
  shows "monte_carlo_down_out_py S K T sigma r B1 Z = monte_carlo_down_out_py S K T sigma r B2 Z"
proof -
  let ?paths = "S_T S sigma r (T / real (shape1 Z)) (rows Z)"
  let ?b = "\<lambda>B. B_shift B sigma (T / real (shape1 Z))"
  have "map (\<lambda>row. (if \<forall>x\<in>set row. ?b B1 < x then 1 else 0) * max (last row - K) 0) ?paths
      = map (\<lambda>row. (if \<forall>x\<in>set row. ?b B2 < x then 1 else 0) * max (last row - K) 0) ?paths"
    using assms(5) by (intro map_cong refl) simp
  then have "(\<Sum>row\<leftarrow>?paths. (if \<forall>x\<in>set row. ?b B1 < x then 1 else 0) * max (last row - K) 0)
      = (\<Sum>row\<leftarrow>?paths. (if \<forall>x\<in>set row. ?b B2 < x then 1 else 0) * max (last row - K) 0)"
    by (simp only:)
  then show ?thesis
    by (simp only: monte_carlo_down_out_py_normal [OF assms(1-4)])
qed

lemma sum_list_mono_strict_one:
  fixes f g :: "'a \<Rightarrow> real"
  assumes "\<forall>x\<in>set xs. f x \<le> g x" and "\<exists>x\<in>set xs. f x < g x"
  shows "sum_list (map f xs) < sum_list (map g xs)"
  using assms
proof (induction xs)
  case Nil
  then show ?case by simp
next
  case (Cons a xs)
  show ?case
  proof (cases "f a < g a")
    case True
    have "sum_list (map f xs) \<le> sum_list (map g xs)"
      using Cons.prems(1) by (intro sum_list_mono) simp
    with True show ?thesis by simp
  next
    case False
    with Cons.prems have "\<exists>x\<in>set xs. f x < g x" and "\<forall>x\<in>set xs. f x \<le> g x" and "f a \<le> g a"
      by auto
    with Cons.IH show ?thesis by fastforce
  qed
qed

lemma knocked_out_term:
  "(if \<forall>x\<in>set row. b < x then 1 else 0) * max (last row - K) (0::real)
   = (if \<exists>x\<in>set row. x \<le> b then 0 else max (last row - K) 0)"
  by (auto simp: not_less not_le)

lemma monte_carlo_down_out_py_per_path:
  assumes "well_shaped Z" and "shape1 Z \<noteq> 0" and "rows Z \<noteq> []" and "0 \<le> T"
  shows "monte_carlo_down_out_py S K T sigma r B Z =
         Inr (Finite (exp (- (r * T)) *
           ((\<Sum>row\<leftarrow>S_T S sigma r (T / real (shape1 Z)) (rows Z).
               if \<exists>x\<in>set row. x \<le> B_shift B sigma (T / real (shape1 Z)) then 0
               else max (last row - K) 0)
            / real (length (rows Z)))))"
  by (simp only: monte_carlo_down_out_py_normal [OF assms] knocked_out_term)




subsection \<open>Numeric bounds used at concrete inputs\<close>

lemma half_below_two_over_e: "(1/2::real) < 2 * exp (-1)"
proof -
  have "exp (1::real) < 4" using exp_le by simp
  then show ?thesis by (simp add: exp_minus field_simps)
qed


lemma two_exp_bound: "2 * exp (-1) \<le> exp (0.5826::real)"
proof -
  have "(2::real) \<le> 1 + 1.5826" by simp
  also have "\<dots> \<le> exp 1.5826" by (rule exp_ge_add_one_self)
  also have "\<dots> = exp 0.5826 * exp 1" by (simp add: exp_add [symmetric])
  finally have "2 * exp (-1) \<le> exp 0.5826 * exp 1 * exp (-1::real)"
    by (simp add: mult_right_mono)
  also have "\<dots> = exp 0.5826" by (simp add: exp_minus)
  finally show ?thesis .
qed

lemma exp_shift_below_two_e: "exp (0.5826::real) < 2 * exp 1"
proof -
  have "exp (0.5826::real) < exp 1" by simp
  also have "\<dots> < 2 * exp 1" by simp
  finally show ?thesis .
qed


subsection \<open>Outcomes of the mean\<close>

lemma mean_Finite: "xs \<noteq> [] \<Longrightarrow> \<exists>p. mean xs = Finite p"
  by (simp add: mean_def)

lemma map2_nonempty: "xs \<noteq> [] \<Longrightarrow> ys \<noteq> [] \<Longrightarrow> map2 f xs ys \<noteq> []"
  by (cases xs; cases ys) simp_all

subsection \<open>The closed formula\<close>

lemma blackScholes_py_eq_spec_bs: "blackScholes_py Phi s k t v rr = spec_bs Phi s k t v rr"
  by (simp add: blackScholes_py_def spec_bs_def Let_def)

lemma analytical_downOut_tf_npv_eq_py:
  "analytical_downOut_tf_npv Phi S K T sigma r B = analytical_downOut_py Phi S K T sigma r B"
  by (simp add: analytical_downOut_tf_npv_def analytical_downOut_py_def Let_def)

lemma analytical_downOut_py_reflection:
  assumes "S \<noteq> 0"
  shows "analytical_downOut_py Phi S K T sigma r B =
           spec_bs Phi S K T sigma r
           - (S / B) powr (1 - r / sigma\<^sup>2) * spec_bs Phi (B\<^sup>2 / S) K T sigma r"
proof -
  have "B\<^sup>2 / (S * K) = B\<^sup>2 / S / K" by simp
  then show ?thesis
    by (simp add: analytical_downOut_py_def spec_bs_def Let_def)
qed

lemma analytical_downOut_py_vs_spec:
  assumes "0 < B" and "B < S" and "r \<noteq> 0" and "sigma \<noteq> 0"
  shows "(analytical_downOut_py Phi S K T sigma r B = spec_down_out_call Phi S K T sigma r B)
       = (spec_bs Phi (B\<^sup>2 / S) K T sigma r = 0)"
proof -
  have S: "S \<noteq> 0" using assms(1,2) by simp
  have base: "0 < S / B" "S / B \<noteq> 1" using assms(1,2) by simp_all
  have "r / sigma\<^sup>2 \<noteq> 2 * r / sigma\<^sup>2" using assms(3,4) by simp
  then have "1 - r / sigma\<^sup>2 \<noteq> 1 - 2 * r / sigma\<^sup>2" by simp
  then have ne: "(S / B) powr (1 - r / sigma\<^sup>2) \<noteq> (S / B) powr (1 - 2 * r / sigma\<^sup>2)"
    using powr_inj [OF base, of "1 - r / sigma\<^sup>2" "1 - 2 * r / sigma\<^sup>2"] by blast
  show ?thesis
    unfolding analytical_downOut_py_reflection [OF S] spec_down_out_call_def
    using ne by simp
qed

subsection \<open>Calculus for the gradient tensors\<close>






















text \<open>
  The analytic TensorFlow pricer does fetch second-order tensors: after the price and
  its six first-order derivatives, the derivatives of the first two of them.
\<close>

lemma analytical_downOut_tf_pricer_fetches:
  "analytical_downOut_tf_pricer_target_calc True =
     [Single Npv,
      Several [Gradient Npv ph_S, Gradient Npv ph_sigma, Gradient Npv ph_r,
               Gradient Npv ph_K, Gradient Npv ph_dt, Gradient Npv ph_B],
      Several (map (Gradient (Gradient Npv ph_S)) [ph_S, ph_sigma, ph_r, ph_K, ph_dt, ph_B]),
      Several (map (Gradient (Gradient Npv ph_sigma)) [ph_S, ph_sigma, ph_r, ph_K, ph_dt, ph_B])]"
  by (simp add: analytical_downOut_tf_pricer_target_calc_def tf_gradients_def Let_def)

subsection \<open>The range of float64\<close>

lemma float_overflow_gt: "4096 < float_overflow"
  by (simp add: float_overflow_def)

lemma float_overflow_lt: "float_overflow < 2 ^ 1024"
  by (simp add: float_overflow_def)


lemma float_underflow_lt: "0 < float_underflow" "float_underflow < 1/1024"
  by (simp_all add: float_underflow_def)

lemma round64_moderate: "1/1024 \<le> \<bar>x\<bar> \<Longrightarrow> \<bar>x\<bar> \<le> 4096 \<Longrightarrow> round64 x = Num x"
  using float_overflow_gt float_underflow_lt by (auto simp: round64_def abs_if split: if_splits)

lemma round64_zero: "round64 0 = Num 0"
  using float_overflow_gt float_underflow_lt by (simp add: round64_def)

lemma round64_overflow: "2 ^ 1024 \<le> x \<Longrightarrow> round64 x = PosInf"
  using float_overflow_lt by (simp add: round64_def)

lemma round64_idem: "round64 x = Num a \<Longrightarrow> round64 a = Num a"
  using float_overflow_gt float_underflow_lt
  by (auto simp: round64_def split: if_splits)



lemma fmul_NotANumber_right: "fmul x NotANumber = NotANumber"
  by (cases x) simp_all


lemma fmul_result_cases:
  "(\<exists>x. fmul a b = Num x \<and> round64 x = Num x) \<or> fmul a b = PosInf \<or> fmul a b = NegInf
   \<or> fmul a b = NotANumber"
proof (cases a; cases b)
  fix x y assume "a = Num x" "b = Num y"
  then show ?thesis
    using round64_idem [of "x * y"] by (cases "round64 (x * y)") simp_all
qed (simp_all add: signed_inf_def)

subsection \<open>The numpy pricer in float64\<close>

lemma foldl_fadd_zeros:
  "\<forall>x\<in>set xs. x = Num 0 \<Longrightarrow> foldl fadd (Num 0) xs = Num 0"
  by (induction xs) (simp_all add: round64_zero)

lemma mean64_zeros:
  assumes "xs \<noteq> []" and "\<forall>x\<in>set xs. x = Num 0"
  shows "mean64 xs = Num 0"
  using assms by (simp add: mean64_def foldl_fadd_zeros round64_zero)

lemma mean64_single_product: "mean64 [fmul a b] = fmul a b"
  using fmul_result_cases [of a b]
  by (auto simp: mean64_def signed_inf_def)

lemma foldl_fmin_NotANumber: "foldl fmin NotANumber xs = NotANumber"
  by (induction xs) (simp_all add: fmin_def)














subsection \<open>The outcome of the closed formula\<close>




subsection \<open>Numeric bounds for the float64 examples\<close>

lemma exp_2000_overflows: "2 ^ 1024 \<le> exp (2000::real)"
proof -
  have "(2::real) \<le> exp 1" using exp_ge_add_one_self [of "1::real"] by simp
  then have "(2::real) ^ 2000 \<le> exp 1 ^ 2000" by (rule power_mono) simp
  also have "exp (1::real) ^ 2000 = exp 2000"
    using exp_of_nat_mult [of 2000 "1::real"] by simp
  finally have "(2::real) ^ 2000 \<le> exp 2000" .
  moreover have "(2::real) ^ 1024 \<le> 2 ^ 2000" by (rule power_increasing) simp_all
  ultimately show ?thesis by linarith
qed

lemma exp_shift_range: "1 \<le> exp (0.5826::real)" "exp (0.5826::real) \<le> 3"
proof -
  show "1 \<le> exp (0.5826::real)" by simp
  have "exp (0.5826::real) \<le> exp 1" by simp
  also have "\<dots> \<le> 3" by (rule exp_le)
  finally show "exp (0.5826::real) \<le> 3" .
qed

lemma shifted_barrier_above_two: "2 \<le> 19/10 * exp (0.5826::real)"
proof -
  have "(1::real) + 0.5826 \<le> exp 0.5826" by (rule exp_ge_add_one_self)
  then show ?thesis by simp
qed

lemma exp_minus_one_range: "1/1024 \<le> exp (- 1::real)" "exp (- 1::real) \<le> 4096"
proof -
  have "exp (1::real) \<le> 3" by (rule exp_le)
  then have "1/3 \<le> exp (- 1::real)" by (simp add: exp_minus field_simps)
  then show "1/1024 \<le> exp (- 1::real)" by linarith
  have "exp (- 1::real) \<le> 1" by simp
  then show "exp (- 1::real) \<le> 4096" by linarith
qed



section \<open>The claims\<close>







text \<open>
  C5 (PayoffEngine). For every \<open>m\<close>-by-\<open>n\<close> variate matrix (\<open>m, n \<ge> 1\<close>) and
  \<open>T \<ge> 0\<close>, the Monte Carlo price is \<open>exp (- r * T)\<close> times the mean over the
  \<open>m\<close> paths of indicator times terminal payoff: the indicator of a path is 1 exactly
  when every grid-point price of its row is strictly above
  \<open>B' = B * exp (0.5826 * sigma * sqrt (T / n))\<close>, and the payoff is
  \<open>max (S_last - K) 0\<close> on the last column. The numpy pricer (row minimum above
  \<open>B'\<close>) and the TensorFlow pricer (all entries above \<open>B'\<close>) both compute it.
\<close>

theorem monte_carlo_price_is_discounted_mean:
  assumes "well_shaped Z" and "shape1 Z = n" and "length (rows Z) = m"
    and "1 \<le> n" and "1 \<le> m" and "0 \<le> T"
  shows "monte_carlo_down_out_py S K T sigma r B Z =
           Inr (Finite (exp (- r * T) *
             ((\<Sum>row\<leftarrow>S_T S sigma r (T / real n) (rows Z).
                 (if \<forall>x\<in>set row. B * exp (0.5826 * sigma * sqrt (T / real n)) < x
                  then 1 else 0) * max (last row - K) 0) / real m))) \<and>
         monte_carlo_down_out_tf S K T sigma r B Z =
           Inr (Finite (exp (- r * T) *
             ((\<Sum>row\<leftarrow>S_T S sigma r (T / real n) (rows Z).
                 (if \<forall>x\<in>set row. B * exp (0.5826 * sigma * sqrt (T / real n)) < x
                  then 1 else 0) * max (last row - K) 0) / real m)))"
proof -
  have n: "shape1 Z \<noteq> 0" using assms(2,4) by simp
  have m: "rows Z \<noteq> []" using assms(3,5) by auto
  show ?thesis
    unfolding monte_carlo_down_out_tf_eq_py [OF assms(1) assms(6)]
      monte_carlo_down_out_py_normal [OF assms(1) n m assms(6)]
    using assms(2,3) by (simp add: B_shift_def)
qed

theorem monte_carlo_price_is_discounted_mean_witness:
  "monte_carlo_down_out_py 100 110 2 (1/5) (3/100) 90 \<lparr>shape1 = 2, rows = [[0, 1], [1, 0]]\<rparr> =
     Inr (Finite (exp (- (3/100) * 2) *
       ((\<Sum>row\<leftarrow>S_T 100 (1/5) (3/100) (2 / real (2::nat)) [[0, 1], [1, 0]].
           (if \<forall>x\<in>set row. 90 * exp (0.5826 * (1/5) * sqrt (2 / real (2::nat))) < x
            then 1 else 0) * max (last row - 110) 0) / real (2::nat))))"
proof -
  have wf: "well_shaped \<lparr>shape1 = 2, rows = [[0, 1], [1, 0]]\<rparr>"
    by (simp add: well_shaped_def)
  have "shape1 \<lparr>shape1 = 2, rows = [[0, 1], [1, 0]]\<rparr> = 2"
    and "length (rows \<lparr>shape1 = 2, rows = [[0, 1], [1, 0]]\<rparr>) = 2"
    and "1 \<le> (2::nat)" and "1 \<le> (2::nat)" and "(0::real) \<le> 2"
    by simp_all
  from monte_carlo_price_is_discounted_mean [OF wf this, of 100 110 "1/5" "3/100" 90]
  show ?thesis by simp
qed

text \<open>
  C7 (edge cases). As stated (all paths knocked out gives exactly 0, not \<^verbatim>\<open>nan\<close>)
  the claim fails in floating point. Take the valid input \<open>S = 2\<close>, \<open>K = 1\<close>,
  \<open>T = 2\<close>, \<open>sigma = 1\<close>, \<open>r = 1/2\<close>, \<open>B = 1.9\<close> (so \<open>0 < B < S\<close>) and the
  1-by-2 variate matrix \<open>[[0, 2000]]\<close>. The path is \<open>[2, inf]\<close>, because
  \<open>exp 2000\<close> overflows. It is knocked out at its first grid point, 2 being below the
  adjusted barrier, so the indicator of the only path is 0. Its payoff is
  \<^verbatim>\<open>inf\<close>, \<^verbatim>\<open>0 * inf\<close> is \<^verbatim>\<open>nan\<close>, and the pricer returns \<^verbatim>\<open>nan\<close>.
\<close>

theorem all_knocked_out_nan_counterexample:
  "(0::real) < 19/10 \<and> (19/10::real) < 2 \<and>
   non_touch64 (B_shift64 (19/10) 1 (round64 (2 / real (2::nat))))
     (S_T64 2 (round64 (1\<^sup>2)) 1 (1/2) (round64 (2 / real (2::nat))) [[0, 2000]]) = [0] \<and>
   monte_carlo_down_out_py_float64 2 1 2 1 (1/2) (19/10) \<lparr>shape1 = 2, rows = [[0, 2000]]\<rparr>
     = Inr NotANumber"
proof -
  define ee :: real where "ee = exp (2913/5000)"
  define bb :: real where "bb = 19/10 * ee"
  have ee: "1 \<le> ee" "ee \<le> 3"
    using exp_shift_range by (simp_all add: ee_def)
  have bb: "2 \<le> bb" "bb \<le> 4096"
    using shifted_barrier_above_two ee(2) by (simp_all add: bb_def ee_def)
  have one: "round64 1 = Num 1"
    by (simp add: round64_moderate)
  have e: "round64 (exp (2913/5000)) = Num ee"
    unfolding ee_def [symmetric] using ee by (intro round64_moderate) simp_all
  have rb: "round64 (19 * ee / 10) = Num bb"
    using bb by (simp add: bb_def round64_moderate)
  have b: "B_shift64 (19/10) 1 (Num 1) = Num bb"
    by (simp add: B_shift64_def round64_moderate e rb)
  have paths: "S_T64 2 (Num 1) 1 (1/2) (Num 1) [[0, 2000]] = [[Num 2, PosInf]]"
    using exp_2000_overflows
    by (simp add: S_T64_def fsub_def round64_moderate round64_zero round64_overflow signed_inf_def)
  have nt: "non_touch64 (Num bb) [[Num 2, PosInf]] = [0]"
    using bb(1) by (simp add: non_touch64_def fmin_def not_less)
  have pay: "call_payout64 1 [[Num 2, PosInf]] = [PosInf]"
    by (simp add: call_payout64_def fsub_def fmax_def)
  have "monte_carlo_down_out_py_float64 2 1 2 1 (1/2) (19/10) \<lparr>shape1 = 2, rows = [[0, 2000]]\<rparr>
     = Inr NotANumber"
    using float_overflow_gt
    by (simp add: monte_carlo_down_out_py_float64_def py_square_def Let_def one b paths nt pay
        mean64_def signed_inf_def fmul_NotANumber_right)
  then show ?thesis
    by (simp add: one b paths nt)
qed

text \<open>
  C7, amended. In float64 with its range, with at least one column and
  \<^verbatim>\<open>sigma**2\<close> in range (so that nothing raises): when there is at least one path,
  every path's indicator is 0, every path's payoff is a finite number and so is the
  discount factor, the pricer returns exactly 0; when there is exactly one path, it
  returns the discount factor times the product of that path's indicator and payoff,
  the mean dividing by 1, and no division error occurs. A knocked-out path whose
  payoff has overflowed makes the result \<^verbatim>\<open>nan\<close>, as above.
\<close>

theorem monte_carlo_edge_cases_float64:
  assumes "shape1 Z \<noteq> 0" and "sigma\<^sup>2 < float_overflow"
  shows "(rows Z \<noteq> [] \<and>
          (\<forall>i\<in>set (non_touch64 (B_shift64 B sigma (round64 (T / real (shape1 Z))))
                      (S_T64 S (round64 (sigma\<^sup>2)) sigma r (round64 (T / real (shape1 Z)))
                         (rows Z))). i = 0) \<and>
          (\<forall>p\<in>set (call_payout64 K
                      (S_T64 S (round64 (sigma\<^sup>2)) sigma r (round64 (T / real (shape1 Z)))
                         (rows Z))). \<exists>x. p = Num x) \<and>
          (\<exists>d. discount64 T r = Num d)
          \<longrightarrow> monte_carlo_down_out_py_float64 S K T sigma r B Z = Inr (Num 0)) \<and>
         (\<forall>z. rows Z = [z]
          \<longrightarrow> monte_carlo_down_out_py_float64 S K T sigma r B Z =
              Inr (fmul (discount64 T r)
                (fmul (Num (hd (non_touch64 (B_shift64 B sigma (round64 (T / real (shape1 Z))))
                           (S_T64 S (round64 (sigma\<^sup>2)) sigma r (round64 (T / real (shape1 Z)))
                              (rows Z)))))
                   (hd (call_payout64 K
                         (S_T64 S (round64 (sigma\<^sup>2)) sigma r (round64 (T / real (shape1 Z)))
                            (rows Z)))))))"
proof (intro conjI impI allI)
  let ?paths = "S_T64 S (round64 (sigma\<^sup>2)) sigma r (round64 (T / real (shape1 Z))) (rows Z)"
  let ?nt = "non_touch64 (B_shift64 B sigma (round64 (T / real (shape1 Z)))) ?paths"
  let ?pay = "call_payout64 K ?paths"
  let ?prod = "map2 (\<lambda>i p. fmul (Num i) p) ?nt ?pay"
  have run: "monte_carlo_down_out_py_float64 S K T sigma r B Z =
      Inr (fmul (discount64 T r) (mean64 ?prod))"
    using assms by (simp add: monte_carlo_down_out_py_float64_def py_square_def Let_def not_le)
  {
    assume a: "rows Z \<noteq> [] \<and> (\<forall>i\<in>set ?nt. i = 0) \<and> (\<forall>p\<in>set ?pay. \<exists>x. p = Num x) \<and>
      (\<exists>d. discount64 T r = Num d)"
    have ne: "?prod \<noteq> []"
      using a by (simp add: non_touch64_def call_payout64_def S_T64_def)
    have "x = Num 0" if "x \<in> set ?prod" for x
    proof -
      from that obtain i p where ip: "i \<in> set ?nt" "p \<in> set ?pay" "x = fmul (Num i) p"
        by (auto dest: set_zip_leftD set_zip_rightD)
      from a ip(1) have "i = 0" by blast
      moreover from a ip(2) obtain y where "p = Num y" by blast
      ultimately show ?thesis by (simp add: ip(3) round64_zero)
    qed
    then have "mean64 ?prod = Num 0"
      using ne by (intro mean64_zeros) blast+
    moreover from a obtain d where "discount64 T r = Num d" by blast
    ultimately show "monte_carlo_down_out_py_float64 S K T sigma r B Z = Inr (Num 0)"
      by (simp add: run round64_zero)
  }
  fix z assume z: "rows Z = [z]"
  then obtain p where p: "?paths = [p]" by (simp add: S_T64_def)
  show "monte_carlo_down_out_py_float64 S K T sigma r B Z =
      Inr (fmul (discount64 T r) (fmul (Num (hd ?nt)) (hd ?pay)))"
    unfolding run by (simp add: p non_touch64_def call_payout64_def mean64_single_product)
qed

theorem monte_carlo_edge_cases_float64_witness:
  "non_touch64 (B_shift64 (19/10) 1 (round64 (2 / real (2::nat))))
     (S_T64 2 (round64 (1\<^sup>2)) 1 (1/2) (round64 (2 / real (2::nat))) [[0, 0]]) = [0] \<and>
   call_payout64 1
     (S_T64 2 (round64 (1\<^sup>2)) 1 (1/2) (round64 (2 / real (2::nat))) [[0, 0]]) = [Num 1] \<and>
   discount64 2 (1/2) = Num (exp (- 1)) \<and>
   monte_carlo_down_out_py_float64 2 1 2 1 (1/2) (19/10) \<lparr>shape1 = 2, rows = [[0, 0]]\<rparr>
     = Inr (Num 0) \<and>
   monte_carlo_down_out_py_float64 2 1 2 1 (1/2) (19/10) \<lparr>shape1 = 2, rows = [[0, 0]]\<rparr>
     = Inr (fmul (Num (exp (- 1))) (fmul (Num 0) (Num 1))) \<and>
   monte_carlo_down_out_py_float64 2 1 2 1 (1/2) (1/2) \<lparr>shape1 = 2, rows = [[0, 0]]\<rparr>
     = Inr (Num (exp (- 1)))"
proof -
  let ?Z = "\<lparr>shape1 = 2, rows = [[0, 0]]\<rparr>"
  define ee :: real where "ee = exp (2913/5000)"
  define bb :: real where "bb = 19/10 * ee"
  have ee: "1 \<le> ee" "ee \<le> 3"
    using exp_shift_range by (simp_all add: ee_def)
  have bb: "2 \<le> bb" "bb \<le> 4096"
    using shifted_barrier_above_two ee(2) by (simp_all add: bb_def ee_def)
  have one: "round64 1 = Num 1"
    by (simp add: round64_moderate)
  have e: "round64 (exp (2913/5000)) = Num ee"
    unfolding ee_def [symmetric] using ee by (intro round64_moderate) simp_all
  have rb: "round64 (19 * ee / 10) = Num bb"
    using bb by (simp add: bb_def round64_moderate)
  have b: "B_shift64 (19/10) 1 (Num 1) = Num bb"
    by (simp add: B_shift64_def round64_moderate e rb)
  have paths: "S_T64 2 (Num 1) 1 (1/2) (Num 1) [[0, 0]] = [[Num 2, Num 2]]"
    by (simp add: S_T64_def fsub_def round64_moderate round64_zero)
  have nt: "non_touch64 (Num bb) [[Num 2, Num 2]] = [0]"
    using bb(1) by (simp add: non_touch64_def fmin_def not_less)
  have pay: "call_payout64 1 [[Num 2, Num 2]] = [Num 1]"
    by (simp add: call_payout64_def fsub_def fmax_def round64_moderate)
  have d: "discount64 2 (1/2) = Num (exp (- 1))"
    using exp_minus_one_range by (simp add: discount64_def round64_moderate)
  have n: "shape1 ?Z \<noteq> 0" by simp
  have s: "(1::real)\<^sup>2 < float_overflow" using float_overflow_gt by simp
  note th = monte_carlo_edge_cases_float64 [OF n s, of "19/10" 2 2 "1/2" 1]
  have hyp: "rows ?Z \<noteq> [] \<and>
      (\<forall>i\<in>set (non_touch64 (B_shift64 (19/10) 1 (round64 (2 / real (shape1 ?Z))))
                  (S_T64 2 (round64 (1\<^sup>2)) 1 (1/2) (round64 (2 / real (shape1 ?Z))) (rows ?Z))).
          i = 0) \<and>
      (\<forall>p\<in>set (call_payout64 1
                  (S_T64 2 (round64 (1\<^sup>2)) 1 (1/2) (round64 (2 / real (shape1 ?Z))) (rows ?Z))).
          \<exists>x. p = Num x) \<and>
      (\<exists>d. discount64 2 (1/2) = Num d)"
    by (simp add: one b paths nt pay d)
  from th hyp have zero: "monte_carlo_down_out_py_float64 2 1 2 1 (1/2) (19/10) ?Z = Inr (Num 0)"
    by blast
  have "rows ?Z = [[0, 0]]" by simp
  with th have "monte_carlo_down_out_py_float64 2 1 2 1 (1/2) (19/10) ?Z =
      Inr (fmul (discount64 2 (1/2))
        (fmul (Num (hd (non_touch64 (B_shift64 (19/10) 1 (round64 (2 / real (shape1 ?Z))))
                   (S_T64 2 (round64 (1\<^sup>2)) 1 (1/2) (round64 (2 / real (shape1 ?Z))) (rows ?Z)))))
           (hd (call_payout64 1
                 (S_T64 2 (round64 (1\<^sup>2)) 1 (1/2) (round64 (2 / real (shape1 ?Z))) (rows ?Z))))))"
    by blast
  then have single: "monte_carlo_down_out_py_float64 2 1 2 1 (1/2) (19/10) ?Z
     = Inr (fmul (Num (exp (- 1))) (fmul (Num 0) (Num 1)))"
    by (simp only: d) (simp add: one b paths nt pay)
  have nt': "non_touch64 (B_shift64 (19/10) 1 (round64 (2 / real (2::nat))))
     (S_T64 2 (round64 (1\<^sup>2)) 1 (1/2) (round64 (2 / real (2::nat))) [[0, 0]]) = [0]"
    by (simp add: one b paths nt)
  have pay': "call_payout64 1
     (S_T64 2 (round64 (1\<^sup>2)) 1 (1/2) (round64 (2 / real (2::nat))) [[0, 0]]) = [Num 1]"
    by (simp add: one paths pay)
  define cc :: real where "cc = 1/2 * ee"
  have cc: "1/2 \<le> cc" "cc \<le> 3/2"
    using ee by (simp_all add: cc_def)
  have rc: "round64 (ee / 2) = Num cc"
    using cc by (simp add: cc_def round64_moderate)
  have b2: "B_shift64 (1/2) 1 (Num 1) = Num cc"
    by (simp add: B_shift64_def round64_moderate e rc)
  have nt2: "non_touch64 (Num cc) [[Num 2, Num 2]] = [1]"
    using cc(2) by (simp add: non_touch64_def fmin_def)
  have re: "round64 (exp (- 1)) = Num (exp (- 1))"
    using exp_minus_one_range by (simp add: round64_moderate)
  note th2 = monte_carlo_edge_cases_float64 [OF n s, of "1/2" 2 2 "1/2" 1]
  have "rows ?Z = [[0, 0]]" by simp
  with th2 have "monte_carlo_down_out_py_float64 2 1 2 1 (1/2) (1/2) ?Z =
      Inr (fmul (discount64 2 (1/2))
        (fmul (Num (hd (non_touch64 (B_shift64 (1/2) 1 (round64 (2 / real (shape1 ?Z))))
                   (S_T64 2 (round64 (1\<^sup>2)) 1 (1/2) (round64 (2 / real (shape1 ?Z))) (rows ?Z)))))
           (hd (call_payout64 1
                 (S_T64 2 (round64 (1\<^sup>2)) 1 (1/2) (round64 (2 / real (shape1 ?Z))) (rows ?Z))))))"
    by blast
  then have survive: "monte_carlo_down_out_py_float64 2 1 2 1 (1/2) (1/2) ?Z = Inr (Num (exp (- 1)))"
    by (simp only: d) (simp add: one b2 paths nt2 pay re)
  show ?thesis
    by (intro conjI) (rule nt', rule pay', rule d, rule zero, rule single, rule survive)
qed

text \<open>
  C4 (BarrierContinuityCorrector). The adjusted barrier is
  \<open>B' = B * exp (0.5826 * sigma * sqrt Dt)\<close> with \<open>Dt = T / n\<close>, and it is what
  the knock-out comparison uses: a path with a grid-point price at or below \<open>B'\<close>
  contributes 0 to the mean, and a path that stays above \<open>B'\<close> contributes its
  terminal payoff \<open>max (S_last - K) 0\<close>, computed from the plain last-column price
  and the unadjusted strike. So a knocked-out path whose last price is above the
  strike makes the price strictly smaller than the barrier-free discounted mean
  payoff; two barriers whose adjusted levels give the same comparison results on
  every path give the same price; and when no path is knocked out the price is the
  barrier-free discounted mean payoff. All of it holds for the numpy and the
  TensorFlow pricer.
\<close>

theorem barrier_shift_only_in_knock_out_test:
  assumes "well_shaped Z" and "shape1 Z \<noteq> 0" and "rows Z \<noteq> []" and "0 \<le> T"
  shows "monte_carlo_down_out_py S K T sigma r B Z =
           Inr (Finite (exp (- r * T) *
             ((\<Sum>row\<leftarrow>S_T S sigma r (T / real (shape1 Z)) (rows Z).
                 if \<exists>x\<in>set row. x \<le> B * exp (0.5826 * sigma * sqrt (T / real (shape1 Z)))
                 then 0 else max (last row - K) 0)
              / real (length (rows Z))))) \<and>
         monte_carlo_down_out_tf S K T sigma r B Z =
           Inr (Finite (exp (- r * T) *
             ((\<Sum>row\<leftarrow>S_T S sigma r (T / real (shape1 Z)) (rows Z).
                 if \<exists>x\<in>set row. x \<le> B * exp (0.5826 * sigma * sqrt (T / real (shape1 Z)))
                 then 0 else max (last row - K) 0)
              / real (length (rows Z))))) \<and>
         ((\<exists>row\<in>set (S_T S sigma r (T / real (shape1 Z)) (rows Z)).
             (\<exists>x\<in>set row. x \<le> B * exp (0.5826 * sigma * sqrt (T / real (shape1 Z)))) \<and>
             K < last row)
          \<longrightarrow> (\<exists>p. monte_carlo_down_out_py S K T sigma r B Z = Inr (Finite p) \<and>
                   p < exp (- r * T) *
                       ((\<Sum>row\<leftarrow>S_T S sigma r (T / real (shape1 Z)) (rows Z).
                           max (last row - K) 0)
                        / real (length (rows Z))))) \<and>
         ((\<forall>row\<in>set (S_T S sigma r (T / real (shape1 Z)) (rows Z)).
             (\<forall>x\<in>set row. B * exp (0.5826 * sigma * sqrt (T / real (shape1 Z))) < x) =
             (\<forall>x\<in>set row. B2 * exp (0.5826 * sigma * sqrt (T / real (shape1 Z))) < x))
          \<longrightarrow> monte_carlo_down_out_py S K T sigma r B Z =
                monte_carlo_down_out_py S K T sigma r B2 Z \<and>
              monte_carlo_down_out_tf S K T sigma r B Z =
                monte_carlo_down_out_tf S K T sigma r B2 Z) \<and>
         ((\<forall>row\<in>set (S_T S sigma r (T / real (shape1 Z)) (rows Z)).
             \<forall>x\<in>set row. B * exp (0.5826 * sigma * sqrt (T / real (shape1 Z))) < x)
          \<longrightarrow> monte_carlo_down_out_py S K T sigma r B Z =
                Inr (Finite (exp (- r * T) *
                  ((\<Sum>row\<leftarrow>S_T S sigma r (T / real (shape1 Z)) (rows Z). max (last row - K) 0)
                   / real (length (rows Z))))) \<and>
              monte_carlo_down_out_tf S K T sigma r B Z =
                Inr (Finite (exp (- r * T) *
                  ((\<Sum>row\<leftarrow>S_T S sigma r (T / real (shape1 Z)) (rows Z). max (last row - K) 0)
                   / real (length (rows Z))))))"
proof -
  let ?dt = "T / real (shape1 Z)"
  let ?paths = "S_T S sigma r ?dt (rows Z)"
  let ?b = "B * exp (0.5826 * sigma * sqrt ?dt)"
  let ?kept = "\<lambda>row. if \<exists>x\<in>set row. x \<le> ?b then 0 else max (last row - K) (0::real)"
  let ?m = "real (length (rows Z))"
  have b: "B_shift B sigma ?dt = ?b" by (simp add: B_shift_def)
  have m: "0 < ?m" using assms(3) by simp
  have py: "monte_carlo_down_out_py S K T sigma r B Z =
      Inr (Finite (exp (- r * T) * ((\<Sum>row\<leftarrow>?paths. ?kept row) / ?m)))"
    using monte_carlo_down_out_py_per_path [OF assms, of S K sigma r B] by (simp only: b) simp
  have tf: "monte_carlo_down_out_tf S K T sigma r B Z =
      Inr (Finite (exp (- r * T) * ((\<Sum>row\<leftarrow>?paths. ?kept row) / ?m)))"
    using py by (simp only: monte_carlo_down_out_tf_eq_py [OF assms(1) assms(4)])
  have strict: "\<exists>p. monte_carlo_down_out_py S K T sigma r B Z = Inr (Finite p) \<and>
        p < exp (- r * T) * ((\<Sum>row\<leftarrow>?paths. max (last row - K) 0) / ?m)"
    if hit: "\<exists>row\<in>set ?paths. (\<exists>x\<in>set row. x \<le> ?b) \<and> K < last row"
  proof -
    have le: "\<forall>row\<in>set ?paths. ?kept row \<le> max (last row - K) 0" by simp
    from hit obtain row where row: "row \<in> set ?paths" "\<exists>x\<in>set row. x \<le> ?b" "K < last row"
      by blast
    from row(2) have "?kept row = 0" by (simp only: if_True)
    moreover from row(3) have "0 < max (last row - K) 0" by simp
    ultimately have "?kept row < max (last row - K) 0" by (simp only:)
    with row(1) have lt: "\<exists>row\<in>set ?paths. ?kept row < max (last row - K) 0" by blast
    have "(\<Sum>row\<leftarrow>?paths. ?kept row) < (\<Sum>row\<leftarrow>?paths. max (last row - K) 0)"
      using le lt by (rule sum_list_mono_strict_one)
    then have "(\<Sum>row\<leftarrow>?paths. ?kept row) / ?m < (\<Sum>row\<leftarrow>?paths. max (last row - K) 0) / ?m"
      using m by (simp add: divide_strict_right_mono)
    then have "exp (- r * T) * ((\<Sum>row\<leftarrow>?paths. ?kept row) / ?m)
        < exp (- r * T) * ((\<Sum>row\<leftarrow>?paths. max (last row - K) 0) / ?m)"
      by (rule mult_strict_left_mono) simp
    with py show ?thesis by blast
  qed
  have same: "monte_carlo_down_out_py S K T sigma r B Z = monte_carlo_down_out_py S K T sigma r B2 Z"
    if "\<forall>row\<in>set ?paths. (\<forall>x\<in>set row. ?b < x) =
          (\<forall>x\<in>set row. B2 * exp (0.5826 * sigma * sqrt ?dt) < x)"
    using that by (intro same_tests_same_price assms) (simp add: B_shift_def)
  have free: "monte_carlo_down_out_py S K T sigma r B Z =
        Inr (Finite (exp (- r * T) * ((\<Sum>row\<leftarrow>?paths. max (last row - K) 0) / ?m)))"
    if "\<forall>row\<in>set ?paths. \<forall>x\<in>set row. ?b < x"
  proof -
    from that have "monte_carlo_down_out_py S K T sigma r B Z =
        Inr (Finite (exp (- (r * T)) * ((\<Sum>row\<leftarrow>?paths. max (last row - K) 0) / ?m)))"
      by (intro all_survive_mean assms) (simp add: B_shift_def)
    then show ?thesis by simp
  qed
  show ?thesis
  proof (intro conjI impI)
    show "monte_carlo_down_out_py S K T sigma r B Z =
      Inr (Finite (exp (- r * T) * ((\<Sum>row\<leftarrow>?paths. ?kept row) / ?m)))" by (rule py)
    show "monte_carlo_down_out_tf S K T sigma r B Z =
      Inr (Finite (exp (- r * T) * ((\<Sum>row\<leftarrow>?paths. ?kept row) / ?m)))" by (rule tf)
  next
    assume "\<exists>row\<in>set ?paths. (\<exists>x\<in>set row. x \<le> ?b) \<and> K < last row"
    then show "\<exists>p. monte_carlo_down_out_py S K T sigma r B Z = Inr (Finite p) \<and>
        p < exp (- r * T) * ((\<Sum>row\<leftarrow>?paths. max (last row - K) 0) / ?m)"
      by (rule strict)
  next
    assume a: "\<forall>row\<in>set ?paths. (\<forall>x\<in>set row. ?b < x) =
          (\<forall>x\<in>set row. B2 * exp (0.5826 * sigma * sqrt ?dt) < x)"
    then show "monte_carlo_down_out_py S K T sigma r B Z =
        monte_carlo_down_out_py S K T sigma r B2 Z" by (rule same)
    from same [OF a] show "monte_carlo_down_out_tf S K T sigma r B Z =
        monte_carlo_down_out_tf S K T sigma r B2 Z"
      by (simp only: monte_carlo_down_out_tf_eq_py [OF assms(1) assms(4)])
  next
    assume a: "\<forall>row\<in>set ?paths. \<forall>x\<in>set row. ?b < x"
    then show "monte_carlo_down_out_py S K T sigma r B Z =
        Inr (Finite (exp (- r * T) * ((\<Sum>row\<leftarrow>?paths. max (last row - K) 0) / ?m)))"
      by (rule free)
    from free [OF a] show "monte_carlo_down_out_tf S K T sigma r B Z =
        Inr (Finite (exp (- r * T) * ((\<Sum>row\<leftarrow>?paths. max (last row - K) 0) / ?m)))"
      by (simp only: monte_carlo_down_out_tf_eq_py [OF assms(1) assms(4)])
  qed
qed

theorem barrier_shift_only_in_knock_out_test_witness:
  "S_T 2 1 (1/2) (1 / real (1::nat)) [[1], [-1]] = [[2 * exp 1], [2 * exp (-1)]] \<and>
   \<not> 1 * exp (0.5826 * 1 * sqrt (1 / real (1::nat))) < 2 * exp (-1) \<and>
   call_payout (1/2) [[2 * exp 1], [2 * exp (-1)]] = [2 * exp 1 - 1/2, 2 * exp (-1) - 1/2] \<and>
   0 < 2 * exp (-1) - (1/2::real) \<and>
   monte_carlo_down_out_py 2 (1/2) 1 1 (1/2) 1 \<lparr>shape1 = 1, rows = [[1], [-1]]\<rparr> =
     Inr (Finite (exp (- (1/2)) * ((2 * exp 1 - 1/2) / 2)))"
proof -
  let ?Z = "\<lparr>shape1 = 1, rows = [[1], [-1]]\<rparr>"
  have wf: "well_shaped ?Z" by (simp add: well_shaped_def)
  have n: "shape1 ?Z \<noteq> 0" by simp
  have m: "rows ?Z \<noteq> []" by simp
  have T: "(0::real) \<le> 1" by simp
  have paths: "S_T 2 1 (1/2) (1 / real (1::nat)) [[1], [-1]] = [[2 * exp 1], [2 * exp (-1)]]"
    by (simp add: S_T_def cumprod_def)
  have out: "\<not> 1 * exp (0.5826 * 1 * sqrt (1 / real (1::nat))) < 2 * exp (-1)"
    using two_exp_bound by (simp add: not_less)
  have pos: "0 < 2 * exp (-1) - (1/2::real)"
    using half_below_two_over_e by simp
  have big: "(1/2::real) < 2 * exp 1"
  proof -
    have "(1/2::real) < 2 * exp (-1)" by (rule half_below_two_over_e)
    also have "\<dots> \<le> 2 * exp 1" by simp
    finally show ?thesis .
  qed
  have pay: "call_payout (1/2) [[2 * exp 1], [2 * exp (-1)]] = [2 * exp 1 - 1/2, 2 * exp (-1) - 1/2]"
    using pos big by (simp add: call_payout_def max_def)
  note th = barrier_shift_only_in_knock_out_test [OF wf n m T, of 2 "1/2" 1 "1/2" 1]
  from th have "monte_carlo_down_out_py 2 (1/2) 1 1 (1/2) 1 ?Z =
           Inr (Finite (exp (- (1/2) * 1) *
             ((\<Sum>row\<leftarrow>S_T 2 1 (1/2) (1 / real (shape1 ?Z)) (rows ?Z).
                 if \<exists>x\<in>set row. x \<le> 1 * exp (0.5826 * 1 * sqrt (1 / real (shape1 ?Z)))
                 then 0 else max (last row - 1/2) 0)
              / real (length (rows ?Z)))))"
    by (rule conjunct1)
  then have price: "monte_carlo_down_out_py 2 (1/2) 1 1 (1/2) 1 ?Z =
     Inr (Finite (exp (- (1/2)) * ((2 * exp 1 - 1/2) / 2)))"
    using two_exp_bound exp_shift_below_two_e big paths
    by (simp add: not_le max_def)
  show ?thesis
    by (intro conjI) (rule paths, rule out, rule pay, rule pos, rule price)
qed







text \<open>
  C1 (AnalyticReferencePricer). The code's reflection term is the Black-Scholes value
  at \<open>B\<^sup>2/S\<close>, as the claim says, but its prefactor is \<open>(S/B) powr (1 - r/sigma\<^sup>2)\<close>:
  the factor 2 of the claimed exponent \<open>1 - 2r/sigma\<^sup>2\<close> is missing (the source
  computes \<^verbatim>\<open>alpha = 0.5 - r/sigma**2\<close>, half the claimed exponent, and never uses
  it). At the notebook's own example \<open>S = 100\<close>, \<open>K = 110\<close>, \<open>T = 2\<close>,
  \<open>sigma = 1/5\<close>, \<open>r = 3/100\<close>, \<open>B = 90\<close> both the Python and the TensorFlow
  formula have the prefactor \<open>(10/9) powr (1/4)\<close> where the claimed formula has
  \<open>(10/9) powr (- 1/2)\<close>, and the code's price equals the claimed one only if the
  Black-Scholes value \<open>bs(81, 110, 2, 1/5, 3/100)\<close> is 0.
\<close>

theorem analytical_downOut_exponent_at_example:
  "analytical_downOut_py Phi 100 110 2 (1/5) (3/100) 90 =
     spec_bs Phi 100 110 2 (1/5) (3/100) - (10/9) powr (1/4) * spec_bs Phi 81 110 2 (1/5) (3/100) \<and>
   analytical_downOut_tf_npv Phi 100 110 2 (1/5) (3/100) 90 =
     spec_bs Phi 100 110 2 (1/5) (3/100) - (10/9) powr (1/4) * spec_bs Phi 81 110 2 (1/5) (3/100) \<and>
   spec_down_out_call Phi 100 110 2 (1/5) (3/100) 90 =
     spec_bs Phi 100 110 2 (1/5) (3/100) - (10/9) powr (- (1/2)) * spec_bs Phi 81 110 2 (1/5) (3/100) \<and>
   (analytical_downOut_py Phi 100 110 2 (1/5) (3/100) 90 =
      spec_down_out_call Phi 100 110 2 (1/5) (3/100) 90
    \<longleftrightarrow> spec_bs Phi 81 110 2 (1/5) (3/100) = 0)"
proof -
  have e1: "1 - (3/100) / (1/5)\<^sup>2 = (1/4::real)" by (simp add: power2_eq_square)
  have e2: "1 - 2 * (3/100) / (1/5)\<^sup>2 = (- (1/2)::real)" by (simp add: power2_eq_square)
  have b: "(90::real)\<^sup>2 / 100 = 81" by simp
  have q: "(100::real) / 90 = 10/9" by simp
  have code: "analytical_downOut_py Phi 100 110 2 (1/5) (3/100) 90 =
     spec_bs Phi 100 110 2 (1/5) (3/100) - (10/9) powr (1/4) * spec_bs Phi 81 110 2 (1/5) (3/100)"
  proof -
    have "(100::real) \<noteq> 0" by simp
    from analytical_downOut_py_reflection [OF this, of Phi 110 2 "1/5" "3/100" 90]
    show ?thesis by (simp only: e1 b q)
  qed
  have spec: "spec_down_out_call Phi 100 110 2 (1/5) (3/100) 90 =
     spec_bs Phi 100 110 2 (1/5) (3/100) - (10/9) powr (- (1/2)) * spec_bs Phi 81 110 2 (1/5) (3/100)"
    unfolding spec_down_out_call_def by (simp only: e2 b q)
  have ne: "(10/9::real) powr (1/4) \<noteq> (10/9) powr (- (1/2))"
    by (simp add: powr_inj)
  have iff: "(analytical_downOut_py Phi 100 110 2 (1/5) (3/100) 90 =
      spec_down_out_call Phi 100 110 2 (1/5) (3/100) 90)
    = (spec_bs Phi 81 110 2 (1/5) (3/100) = 0)"
    unfolding code spec using ne by simp
  show ?thesis
    using code spec iff by (simp only: analytical_downOut_tf_npv_eq_py simp_thms)
qed




end
